theory Spec2Isabelle
  imports Complex_Main
begin

section \<open>Strings, numbers and styling\<close>

text \<open>
  JavaScript strings are modelled as \<^typ>\<open>string\<close>. The chalk styling functions
  (\<^verbatim>\<open>color.bold\<close>, \<^verbatim>\<open>color.red\<close>, \<^verbatim>\<open>color.gray\<close>, \<^verbatim>\<open>color.bold.red\<close>) belong to an external
  library; they are modelled at colour level 0, where chalk returns its argument
  unchanged.
\<close>

definition bold :: "string \<Rightarrow> string" where
  "bold s = s"

definition red :: "string \<Rightarrow> string" where
  "red s = s"

definition gray :: "string \<Rightarrow> string" where
  "gray s = s"

definition bold_red :: "string \<Rightarrow> string" where
  "bold_red s = s"

text \<open>\<^verbatim>\<open>str.includes(c)\<close> for a one-character needle.\<close>

definition includes_char :: "string \<Rightarrow> char \<Rightarrow> bool" where
  "includes_char s c = (c \<in> set s)"

text \<open>
  \<^verbatim>\<open>str.split(sep)\<close> for a one-character separator: the pieces between the
  separators, empty pieces kept; the result is never empty. The accumulator holds the
  current piece reversed.
\<close>

fun split_acc :: "char \<Rightarrow> string \<Rightarrow> string \<Rightarrow> string list" where
  "split_acc sep acc [] = [rev acc]"
| "split_acc sep acc (x # xs) =
     (if x = sep then rev acc # split_acc sep [] xs else split_acc sep (x # acc) xs)"

definition split :: "string \<Rightarrow> char \<Rightarrow> string list" where
  "split s sep = split_acc sep [] s"

text \<open>
  Array destructuring \<^verbatim>\<open>const [a, b] = arr\<close> reads an index; past the end the
  variable is \<^verbatim>\<open>undefined\<close>, modelled as \<^const>\<open>None\<close>.
\<close>

fun at_index :: "'a list \<Rightarrow> nat \<Rightarrow> 'a option" where
  "at_index [] i = None"
| "at_index (x # xs) 0 = Some x"
| "at_index (x # xs) (Suc i) = at_index xs i"

text \<open>A possibly undefined string inside a template literal.\<close>

definition template :: "string option \<Rightarrow> string" where
  "template x = (case x of None \<Rightarrow> ''undefined'' | Some s \<Rightarrow> s)"

text \<open>\<^verbatim>\<open>arr.join(sep)\<close>.\<close>

fun join :: "string list \<Rightarrow> string \<Rightarrow> string" where
  "join [] sep = []"
| "join [x] sep = x"
| "join (x # y # ys) sep = x @ sep @ join (y # ys) sep"

text \<open>
  A JavaScript number is a finite value, \<^verbatim>\<open>NaN\<close> or an infinity. Every finite double
  is a real number, so the finite values are modelled as reals; what holds for every
  real holds for every double.
\<close>

datatype js_number = Finite real | NaN | PosInfinity | NegInfinity

text \<open>\<^verbatim>\<open>n > x\<close> for an array length \<open>n\<close> and a number \<open>x\<close>: false when \<open>x\<close> is \<^verbatim>\<open>NaN\<close>.\<close>

definition length_greater :: "nat \<Rightarrow> js_number \<Rightarrow> bool" where
  "length_greater n x =
     (case x of
        Finite r \<Rightarrow> real n > r
      | NaN \<Rightarrow> False
      | PosInfinity \<Rightarrow> False
      | NegInfinity \<Rightarrow> True)"

text \<open>
  Numbers put into a template string. An array length is a natural number below
  \<open>2\<^sup>3\<^sup>2\<close> and is printed in decimal.
\<close>

definition digit_char :: "nat \<Rightarrow> char" where
  "digit_char d = char_of (48 + d)"

function string_of_nat :: "nat \<Rightarrow> string" where
  "string_of_nat n =
     (if n < 10 then [digit_char n] else string_of_nat (n div 10) @ [digit_char (n mod 10)])"
  by pat_completeness auto
termination
  by (relation "measure id") auto

declare string_of_nat.simps [simp del]

definition string_of_int :: "int \<Rightarrow> string" where
  "string_of_int i = (if i < 0 then CHR ''-'' # string_of_nat (nat (- i)) else string_of_nat (nat i))"

text \<open>
  \<^verbatim>\<open>Number.prototype.toString\<close>: \<^verbatim>\<open>NaN\<close> and the infinities have their names; an integer
  of magnitude below \<open>2\<^sup>5\<^sup>3\<close> is printed in decimal with all its digits. Every other
  finite value (a fraction, or a magnitude from \<open>2\<^sup>5\<^sup>3\<close> on, where the engine prints the
  shortest digits that identify the double, and an exponent from \<open>10\<^sup>2\<^sup>1\<close> on) is printed
  by the engine's algorithm, the parameter \<open>other\<close>.
\<close>

definition number_to_string :: "(real \<Rightarrow> string) \<Rightarrow> js_number \<Rightarrow> string" where
  "number_to_string other x =
     (case x of
        NaN \<Rightarrow> ''NaN''
      | PosInfinity \<Rightarrow> ''Infinity''
      | NegInfinity \<Rightarrow> ''-Infinity''
      | Finite r \<Rightarrow>
          (if r = of_int \<lfloor>r\<rfloor> \<and> \<bar>r\<bar> < 2 ^ 53 then string_of_int \<lfloor>r\<rfloor> else other r))"

section \<open>The manifest\<close>

text \<open>
  The fields of \<^verbatim>\<open>Block\<close> and \<^verbatim>\<open>Category\<close> that the rule engine reads. The
  \<^verbatim>\<open>list\<close> flag of a block is the field \<open>list'\<close>.
\<close>

record block =
  name :: string
  category :: string
  localDependencies :: "string list"
  dependencies :: "string list"
  devDependencies :: "string list"
  list' :: bool

record category_t =
  cat_name :: string
  blocks :: "block list"

record manifest_t =
  categories :: "category_t list"

text \<open>The template \<^verbatim>\<open>`${block.category}/${block.name}`\<close>.\<close>

definition specifier :: "block \<Rightarrow> string" where
  "specifier b = category b @ ''/'' @ name b"

section \<open>Rules\<close>

text \<open>
  What a check can throw: \<^verbatim>\<open>unwrap()\<close> on an \<^verbatim>\<open>Err\<close> result, a property read on
  \<^verbatim>\<open>undefined\<close>, and the engine's \<^verbatim>\<open>RangeError\<close> when the call stack is exhausted.
\<close>

datatype error = UnwrapError | TypeError | RangeError

datatype RuleLevel = Off | Warn | Error

text \<open>An element of \<^verbatim>\<open>options: (string | number)[]\<close>.\<close>

datatype option_value = Str string | Num js_number

record 'c CheckOptions =
  manifest :: manifest_t
  options :: "option_value list"
  config :: 'c

type_synonym 'c check_fn = "block \<Rightarrow> 'c CheckOptions \<Rightarrow> error + string list option"

record 'c Rule =
  description :: string
  check :: "'c check_fn"

text \<open>
  The modules \<^verbatim>\<open>../parse-package-name\<close> and \<^verbatim>\<open>../ascii\<close> are imported by the rule
  engine; their values are parameters of the model, and so are two functions of the
  engine. \<open>parsePackageName\<close> gives the \<^verbatim>\<open>name\<close> of an \<^verbatim>\<open>Ok\<close> result and
  \<^const>\<open>None\<close> for an \<^verbatim>\<open>Err\<close>, on which \<^verbatim>\<open>unwrap()\<close> throws. \<open>trim\<close> is
  \<^verbatim>\<open>String.prototype.trim\<close>, which strips every Unicode white space. \<open>numberToString\<close>
  prints the finite numbers that \<^const>\<open>number_to_string\<close> leaves to the engine.
\<close>

record externals =
  parsePackageName :: "string \<Rightarrow> string option"
  VERTICAL_LINE :: string
  WARN :: string
  ERROR :: string
  trim :: "string \<Rightarrow> string"
  numberToString :: "real \<Rightarrow> string"

text \<open>\<^verbatim>\<open>return errors.length > 0 ? errors : undefined\<close>.\<close>

definition errors_or_undefined :: "string list \<Rightarrow> string list option" where
  "errors_or_undefined errors = (if length errors > 0 then Some errors else None)"

subsection \<open>no-unpinned-dependency\<close>

definition no_unpinned_dependency_check :: "'c check_fn" where
  "no_unpinned_dependency_check b opts =
     Inr (errors_or_undefined
       (map (\<lambda>dep. ''Couldn't find a version to use for '' @ bold dep)
         (filter (\<lambda>dep. \<not> includes_char dep CHR ''@'') (dependencies b @ devDependencies b))))"

subsection \<open>max-local-dependencies\<close>

text \<open>\<^verbatim>\<open>typeof options[0] !== 'number'\<close> gives the limit 5.\<close>

definition max_local_dependencies_limit :: "option_value list \<Rightarrow> js_number" where
  "max_local_dependencies_limit opts =
     (case at_index opts 0 of Some (Num n) \<Rightarrow> n | _ \<Rightarrow> Finite 5)"

definition max_local_dependencies_check :: "externals \<Rightarrow> 'c check_fn" where
  "max_local_dependencies_check ext b opts =
     (let limit = max_local_dependencies_limit (options opts) in
      Inr (errors_or_undefined
        (if length_greater (length (localDependencies b)) limit
         then [bold (specifier b) @ '' has too many local dependencies ('' @
                 bold (string_of_nat (length (localDependencies b))) @ '') limit ('' @
                 bold (number_to_string (numberToString ext) limit) @ '')'']
         else [])))"

subsection \<open>Looking a local dependency up\<close>

text \<open>
  \<^verbatim>\<open>const [categoryName, blockName] = dep.split('/')\<close> followed by
  \<^verbatim>\<open>categories.find((cat) => cat.name === categoryName)?.blocks.find((b) => b.name === blockName)\<close>.
  A strict comparison with \<^verbatim>\<open>undefined\<close> is false.
\<close>

definition find_category :: "category_t list \<Rightarrow> string option \<Rightarrow> category_t option" where
  "find_category cats categoryName = find (\<lambda>cat. Some (cat_name cat) = categoryName) cats"

definition find_block :: "block list \<Rightarrow> string option \<Rightarrow> block option" where
  "find_block bs blockName = find (\<lambda>b. Some (name b) = blockName) bs"

definition lookup_dep :: "category_t list \<Rightarrow> string \<Rightarrow> block option" where
  "lookup_dep cats dep =
     (let parts = split dep CHR ''/'';
          categoryName = at_index parts 0;
          blockName = at_index parts 1
      in case find_category cats categoryName of
           None \<Rightarrow> None
         | Some cat \<Rightarrow> find_block (blocks cat) blockName)"

subsection \<open>require-local-dependency-exists\<close>

text \<open>
  The category is found by its trimmed name. \<^verbatim>\<open>split\<close> never returns an empty array,
  so \<^verbatim>\<open>depCategoryName\<close> is always a string.
\<close>

definition require_local_dependency_exists_dep :: "externals \<Rightarrow> manifest_t \<Rightarrow> block \<Rightarrow> string \<Rightarrow>
    string list" where
  "require_local_dependency_exists_dep ext m b dep =
     (let parts = split dep CHR ''/'';
          depCategoryName = at_index parts 0;
          depBlockName = at_index parts 1;
          depCategory = find (\<lambda>cat. Some (trim ext (cat_name cat)) =
                                   map_option (trim ext) depCategoryName) (categories m);
          error = bold (specifier b) @ '' depends on local dependency '' @ bold dep @
                    '' which doesn't exist''
      in case depCategory of
           None \<Rightarrow> [error]
         | Some cat \<Rightarrow> (if find_block (blocks cat) depBlockName = None then [error] else []))"

definition require_local_dependency_exists_check :: "externals \<Rightarrow> 'c check_fn" where
  "require_local_dependency_exists_check ext b opts =
     Inr (errors_or_undefined
       (concat (map (require_local_dependency_exists_dep ext (manifest opts) b)
          (localDependencies b))))"

subsection \<open>no-category-index-file-dependency\<close>

text \<open>What one iteration of the loop pushes for \<open>dep\<close>; each \<^verbatim>\<open>continue\<close> pushes nothing.\<close>

definition no_category_index_file_dependency_dep :: "manifest_t \<Rightarrow> block \<Rightarrow> string \<Rightarrow> string list" where
  "no_category_index_file_dependency_dep m b dep =
     (let parts = split dep CHR ''/'';
          categoryName = at_index parts 0;
          name' = at_index parts 1
      in if name' \<noteq> Some ''index'' then []
         else case find_category (categories m) categoryName of
                None \<Rightarrow> []
              | Some cat \<Rightarrow>
                  (case find_block (blocks cat) name' of
                     None \<Rightarrow> []
                   | Some depBlock \<Rightarrow>
                       [bold (specifier b) @ '' depends on '' @
                          bold (template categoryName @ ''/'' @ template name')]))"

definition no_category_index_file_dependency_check :: "'c check_fn" where
  "no_category_index_file_dependency_check b opts =
     Inr (errors_or_undefined
       (concat (map (no_category_index_file_dependency_dep (manifest opts) b) (localDependencies b))))"

subsection \<open>searchForDep\<close>

text \<open>
  The recursion of \<^verbatim>\<open>searchForDep\<close> is not bounded by the source, so the model
  carries the number of stack frames the engine has left; a call with none left throws
  \<^const>\<open>RangeError\<close>. \<open>searchForDep_loop\<close> is the \<^verbatim>\<open>for\<close> loop over the
  block's remaining local dependencies; \<^verbatim>\<open>undefined\<close> is \<^const>\<open>None\<close>.
\<close>

fun searchForDep :: "nat \<Rightarrow> string \<Rightarrow> block \<Rightarrow> category_t list \<Rightarrow> string list \<Rightarrow>
      error + string list option"
  and searchForDep_loop :: "nat \<Rightarrow> string \<Rightarrow> string list \<Rightarrow> category_t list \<Rightarrow> string list \<Rightarrow>
      string list \<Rightarrow> error + string list option"
where
  "searchForDep 0 search b cats chain = Inl RangeError"
| "searchForDep (Suc stack) search b cats chain =
     searchForDep_loop stack search (localDependencies b) cats chain (chain @ [specifier b])"
| "searchForDep_loop stack search [] cats chain newChain = Inr None"
| "searchForDep_loop stack search (dep # deps) cats chain newChain =
     (if dep = search then Inr (Some newChain)
      else if dep \<in> set chain then Inr None
      else case lookup_dep cats dep of
             None \<Rightarrow> searchForDep_loop stack search deps cats chain newChain
           | Some depBlock \<Rightarrow>
               (case searchForDep stack search depBlock cats newChain of
                  Inl e \<Rightarrow> Inl e
                | Inr (Some found) \<Rightarrow> Inr (Some (found @ [search]))
                | Inr None \<Rightarrow> searchForDep_loop stack search deps cats chain newChain))"

subsection \<open>no-circular-dependency\<close>

definition no_circular_dependency_check :: "nat \<Rightarrow> 'c check_fn" where
  "no_circular_dependency_check stack b opts =
     (let specifier' = specifier b in
      case searchForDep stack specifier' b (categories (manifest opts)) [] of
        Inl e \<Rightarrow> Inl e
      | Inr chain \<Rightarrow>
          Inr (errors_or_undefined
            (case chain of
               Some ch \<Rightarrow> [''There is a circular dependency in '' @ bold specifier' @ '': '' @
                            bold (join ch '' -> '')]
             | None \<Rightarrow> [])))"

subsection \<open>no-unused-block\<close>

text \<open>The loop over the listed blocks: it returns at the first chain found.\<close>

fun search_listed :: "nat \<Rightarrow> string \<Rightarrow> block list \<Rightarrow> category_t list \<Rightarrow> error + bool" where
  "search_listed stack specifier' [] cats = Inr False"
| "search_listed stack specifier' (b # bs) cats =
     (case searchForDep stack specifier' b cats [] of
        Inl e \<Rightarrow> Inl e
      | Inr (Some chain) \<Rightarrow> Inr True
      | Inr None \<Rightarrow> search_listed stack specifier' bs cats)"

definition listedBlocks :: "manifest_t \<Rightarrow> block list" where
  "listedBlocks m = filter list' (concat (map blocks (categories m)))"

definition no_unused_block_check :: "nat \<Rightarrow> 'c check_fn" where
  "no_unused_block_check stack b opts =
     (if list' b then Inr None
      else let specifier' = specifier b in
        case search_listed stack specifier' (listedBlocks (manifest opts))
               (categories (manifest opts)) of
          Inl e \<Rightarrow> Inl e
        | Inr True \<Rightarrow> Inr None
        | Inr False \<Rightarrow> Inr (Some [bold specifier' @ '' is unused and will be '' @ bold_red ''removed'']))"

subsection \<open>no-framework-dependency\<close>

definition FRAMEWORKS :: "string list" where
  "FRAMEWORKS =
     [''svelte'', ''@sveltejs/kit'',
      ''vue'', ''nuxt'',
      ''react'', ''react-dom'', ''next'', ''@remix-run/react'',
      ''@angular/core'', ''@angular/common'', ''@angular/forms'', ''@angular/platform-browser'',
      ''@angular/platform-browser-dynamic'', ''@angular/router'',
      ''@builder.io/qwik'', ''astro'', ''solid-js'']"

text \<open>\<^verbatim>\<open>.map((d) => parsePackageName(d).unwrap().name)\<close>: the first \<^verbatim>\<open>Err\<close> throws.\<close>

fun unwrap_names :: "(string \<Rightarrow> string option) \<Rightarrow> string list \<Rightarrow> error + string list" where
  "unwrap_names parse [] = Inr []"
| "unwrap_names parse (d # ds) =
     (case parse d of
        None \<Rightarrow> Inl UnwrapError
      | Some n \<Rightarrow> (case unwrap_names parse ds of Inl e \<Rightarrow> Inl e | Inr ns \<Rightarrow> Inr (n # ns)))"

definition no_framework_dependency_check :: "externals \<Rightarrow> 'c check_fn" where
  "no_framework_dependency_check ext b opts =
     (case unwrap_names (parsePackageName ext) (devDependencies b @ dependencies b) of
        Inl e \<Rightarrow> Inl e
      | Inr names \<Rightarrow>
          Inr (errors_or_undefined
            (map (\<lambda>frameworkDep. bold (specifier b) @ '' depends on '' @ bold frameworkDep @
                    '' causing it to be installed when added'')
               (filter (\<lambda>d. d \<in> set FRAMEWORKS) names))))"

subsection \<open>The rule table and its configuration\<close>

text \<open>\<^verbatim>\<open>Object.entries(rules)\<close>: the rules in the order they are written.\<close>

definition rules :: "externals \<Rightarrow> nat \<Rightarrow> (string \<times> 'c Rule) list" where
  "rules ext stack =
     [(''no-unpinned-dependency'',
        \<lparr>description = ''Require all dependencies to have a pinned version.'',
         check = no_unpinned_dependency_check\<rparr>),
      (''require-local-dependency-exists'',
        \<lparr>description = ''Require all local dependencies to exist.'',
         check = require_local_dependency_exists_check ext\<rparr>),
      (''no-category-index-file-dependency'',
        \<lparr>description = ''Disallow depending on the index file of a category.'',
         check = no_category_index_file_dependency_check\<rparr>),
      (''max-local-dependencies'',
        \<lparr>description = ''Enforces a limit on the amount of local dependencies a block can have.'',
         check = max_local_dependencies_check ext\<rparr>),
      (''no-circular-dependency'',
        \<lparr>description = ''Disallow circular dependencies.'',
         check = no_circular_dependency_check stack\<rparr>),
      (''no-unused-block'',
        \<lparr>description = ''Disallow unused blocks. (Not listed and not a dependency of another block)'',
         check = no_unused_block_check stack\<rparr>),
      (''no-framework-dependency'',
        \<lparr>description = ''Disallow frameworks (Svelte, Vue, React) as dependencies.'',
         check = no_framework_dependency_check ext\<rparr>)]"

text \<open>
  An entry of \<^verbatim>\<open>RuleConfig\<close> is a bare level or an array \<^verbatim>\<open>[level, ...options]\<close>; a
  key the object does not have reads as \<^verbatim>\<open>undefined\<close>.
\<close>

datatype RuleConf = Level RuleLevel | Tuple RuleLevel "option_value list"

type_synonym RuleConfig = "string \<Rightarrow> RuleConf option"

definition DEFAULT_CONFIG :: RuleConfig where
  "DEFAULT_CONFIG =
     [''no-category-index-file-dependency'' \<mapsto> Level Warn,
      ''no-unpinned-dependency'' \<mapsto> Level Warn,
      ''require-local-dependency-exists'' \<mapsto> Level Error,
      ''max-local-dependencies'' \<mapsto> Tuple Warn [Num (Finite 10)],
      ''no-circular-dependency'' \<mapsto> Level Error,
      ''no-unused-block'' \<mapsto> Level Warn,
      ''no-framework-dependency'' \<mapsto> Level Warn]"

subsection \<open>runRules\<close>

text \<open>A \<^verbatim>\<open>for\<close> loop whose body updates the state or throws.\<close>

fun for_each :: "('a \<Rightarrow> 's \<Rightarrow> error + 's) \<Rightarrow> 'a list \<Rightarrow> 's \<Rightarrow> error + 's" where
  "for_each body [] s = Inr s"
| "for_each body (x # xs) s =
     (case body x s of Inl e \<Rightarrow> Inl e | Inr s' \<Rightarrow> for_each body xs s')"

record results =
  warnings :: "string list"
  errors :: "string list"

text \<open>
  \<^verbatim>\<open>level\<close> and \<^verbatim>\<open>options\<close> as the loop body reads them from \<^verbatim>\<open>conf\<close>: an array
  gives its first element and the rest, anything else is the level itself, so a missing
  entry gives the level \<^verbatim>\<open>undefined\<close> (\<^const>\<open>None\<close>) and no options.
\<close>

definition level_of :: "RuleConf option \<Rightarrow> RuleLevel option" where
  "level_of conf =
     (case conf of
        None \<Rightarrow> None
      | Some (Level l) \<Rightarrow> Some l
      | Some (Tuple l rest) \<Rightarrow> Some l)"

definition options_of :: "RuleConf option \<Rightarrow> option_value list" where
  "options_of conf = (case conf of Some (Tuple l rest) \<Rightarrow> rest | _ \<Rightarrow> [])"

definition error_line :: "externals \<Rightarrow> string \<Rightarrow> string \<Rightarrow> string" where
  "error_line ext name' err =
     VERTICAL_LINE ext @ ''  '' @ ERROR ext @ '' '' @ red err @ '' '' @ gray name'"

definition warning_line :: "externals \<Rightarrow> string \<Rightarrow> string \<Rightarrow> string" where
  "warning_line ext name' err =
     VERTICAL_LINE ext @ ''  '' @ WARN ext @ '' '' @ err @ '' '' @ gray name'"

text \<open>The body of the innermost loop, for one rule on one block.\<close>

definition run_rule :: "externals \<Rightarrow> manifest_t \<Rightarrow> 'c \<Rightarrow> RuleConfig \<Rightarrow> block \<Rightarrow>
    string \<times> 'c Rule \<Rightarrow> results \<Rightarrow> error + results" where
  "run_rule ext m cfg ruleConfig b entry acc =
     (let name' = fst entry;
          rule = snd entry;
          conf = ruleConfig name';
          level = level_of conf;
          options' = options_of conf
      in if level = Some Off then Inr acc
         else case check rule b \<lparr>manifest = m, options = options', config = cfg\<rparr> of
                Inl e \<Rightarrow> Inl e
              | Inr None \<Rightarrow> Inr acc
              | Inr (Some ruleErrors) \<Rightarrow>
                  (if level = Some Error
                   then Inr (acc\<lparr>errors := errors acc @ map (error_line ext name') ruleErrors\<rparr>)
                   else Inr (acc\<lparr>warnings := warnings acc @ map (warning_line ext name') ruleErrors\<rparr>)))"

text \<open>\<open>runRules_with\<close> is \<^verbatim>\<open>runRules\<close> over a given rule table.\<close>

definition runRules_with :: "(string \<times> 'c Rule) list \<Rightarrow> externals \<Rightarrow> manifest_t \<Rightarrow> 'c \<Rightarrow>
    RuleConfig \<Rightarrow> error + results" where
  "runRules_with table ext m cfg ruleConfig =
     for_each
       (\<lambda>cat. for_each (\<lambda>b. for_each (run_rule ext m cfg ruleConfig b) table) (blocks cat))
       (categories m) \<lparr>warnings = [], errors = []\<rparr>"

definition runRules :: "externals \<Rightarrow> nat \<Rightarrow> manifest_t \<Rightarrow> 'c \<Rightarrow> RuleConfig \<Rightarrow> error + results" where
  "runRules ext stack m cfg ruleConfig = runRules_with (rules ext stack) ext m cfg ruleConfig"

section \<open>The update command, one file at a time\<close>

text \<open>
  The part of \<^verbatim>\<open>_update\<close> that decides one file of a block. Its collaborators are
  parameters: \<^verbatim>\<open>diffLines\<close> of the diff library, the AI model's \<^verbatim>\<open>updateFile\<close>
  (\<^const>\<open>None\<close> when it throws) and \<^verbatim>\<open>formatFile\<close>. What is written to the terminal
  is not modelled.
\<close>

record change =
  value' :: string
  added :: bool
  removed :: bool

record collaborators =
  diffLines :: "string \<Rightarrow> string \<Rightarrow> change list"
  updateFile :: "string \<Rightarrow> string \<Rightarrow> string \<Rightarrow> string option"
  formatFile :: "string \<Rightarrow> string \<Rightarrow> string"

text \<open>
  The answer to a \<^verbatim>\<open>select\<close> prompt: the chosen value, or the cancel symbol. The
  answers the user will give are a list, read from the front.
\<close>

datatype prompt_result = Selected string | Cancelled

text \<open>
  How a step ends: \<^verbatim>\<open>process.exit(0)\<close> after a cancel, \<^verbatim>\<open>program.error\<close>, a prompt
  that is still waiting when the answers have run out, or a normal result.
\<close>

datatype 'a outcome = Exited | Failed | Waiting | Returned 'a

text \<open>The files on disk: a path has a content or does not exist.\<close>

type_synonym filesystem = "string \<Rightarrow> string option"

text \<open>
  The \<^verbatim>\<open>while (true)\<close> loop. It returns \<^verbatim>\<open>acceptedChanges\<close>, the candidate content
  \<^verbatim>\<open>remoteContent\<close> and the answers not yet read.
\<close>

fun review :: "collaborators \<Rightarrow> bool \<Rightarrow> bool \<Rightarrow> string \<Rightarrow> string \<Rightarrow> string \<Rightarrow> string \<Rightarrow>
    prompt_result list \<Rightarrow> (bool \<times> string \<times> prompt_result list) outcome" where
  "review col yes no destPath localContent originalRemoteContent remoteContent answers =
     (let changes = diffLines col localContent remoteContent in
      if length changes > 1 \<or> localContent = [] then
        (if \<not> yes \<and> \<not> no then
           (case answers of
              [] \<Rightarrow> Waiting
            | Cancelled # rest \<Rightarrow> Exited
            | Selected confirmResult # rest \<Rightarrow>
                (if confirmResult = ''update'' then
                   (case rest of
                      [] \<Rightarrow> Waiting
                    | Cancelled # rest' \<Rightarrow> Exited
                    | Selected modelResult # rest' \<Rightarrow>
                        (case updateFile col modelResult localContent originalRemoteContent of
                           None \<Rightarrow>
                             review col yes no destPath localContent originalRemoteContent
                               remoteContent rest'
                         | Some rewritten \<Rightarrow>
                             review col yes no destPath localContent originalRemoteContent
                               (formatFile col rewritten destPath) rest'))
                 else Returned (confirmResult = ''accept'', remoteContent, rest)))
         else Returned (yes, remoteContent, answers))
      else Returned (yes, remoteContent, answers))"

declare review.simps [simp del]

text \<open>
  One iteration of \<^verbatim>\<open>for (const file of files)\<close>: \<open>remoteContentResult\<close> is what
  \<^verbatim>\<open>transformRemoteContent\<close> returned (\<^const>\<open>None\<close> for an \<^verbatim>\<open>Err\<close>).
\<close>

definition update_file :: "collaborators \<Rightarrow> bool \<Rightarrow> bool \<Rightarrow> string \<Rightarrow> string option \<Rightarrow>
    filesystem \<Rightarrow> prompt_result list \<Rightarrow> (filesystem \<times> prompt_result list) outcome" where
  "update_file col yes no destPath remoteContentResult fs answers =
     (case remoteContentResult of
        None \<Rightarrow> Failed
      | Some originalRemoteContent \<Rightarrow>
          (if yes then Returned (fs(destPath \<mapsto> originalRemoteContent), answers)
           else
             let localContent = (case fs destPath of None \<Rightarrow> [] | Some content \<Rightarrow> content) in
             case review col yes no destPath localContent originalRemoteContent
                    originalRemoteContent answers of
               Exited \<Rightarrow> Exited
             | Failed \<Rightarrow> Failed
             | Waiting \<Rightarrow> Waiting
             | Returned (acceptedChanges, remoteContent, rest) \<Rightarrow>
                 Returned (if acceptedChanges then fs(destPath \<mapsto> remoteContent) else fs, rest)))"

section \<open>Notions used by the properties\<close>

text \<open>All blocks of a manifest, in manifest order.\<close>

definition all_blocks :: "category_t list \<Rightarrow> block list" where
  "all_blocks cats = concat (map blocks cats)"

text \<open>
  A local dependency of \<open>b\<close> that resolves to a block is spelled as that block's
  specifier.
\<close>

definition names_resolved :: "category_t list \<Rightarrow> block \<Rightarrow> bool" where
  "names_resolved cats b =
     list_all (\<lambda>dep. case lookup_dep cats dep of None \<Rightarrow> True | Some d \<Rightarrow> specifier d = dep)
       (localDependencies b)"

definition well_named :: "category_t list \<Rightarrow> bool" where
  "well_named cats = list_all (names_resolved cats) (all_blocks cats)"

text \<open>The number of distinct block specifiers of a manifest.\<close>

definition distinct_specifiers :: "category_t list \<Rightarrow> nat" where
  "distinct_specifiers cats = length (remdups (map specifier (all_blocks cats)))"

text \<open>
  A bound on the stack frames a call of \<^const>\<open>searchForDep\<close> needs: two for every
  specifier not yet in the chain, and one more when the block's own specifier already
  is in it.
\<close>

definition frames_needed :: "category_t list \<Rightarrow> string list \<Rightarrow> block \<Rightarrow> nat" where
  "frames_needed cats chain b =
     2 * card (set (map specifier (all_blocks cats)) - set chain) +
       (if specifier b \<in> set chain then 1 else 0)"

text \<open>
  A local dependency whose second segment is \<^verbatim>\<open>index\<close> and that resolves to a block
  of the manifest.
\<close>

definition index_dependency :: "category_t list \<Rightarrow> string \<Rightarrow> bool" where
  "index_dependency cats dep =
     (at_index (split dep CHR ''/'') 1 = Some ''index'' \<and> lookup_dep cats dep \<noteq> None)"

text \<open>The rule table with the check of the rule \<open>key\<close> replaced by \<open>f\<close>.\<close>

definition replace_check :: "string \<Rightarrow> 'c check_fn \<Rightarrow> (string \<times> 'c Rule) list \<Rightarrow>
    (string \<times> 'c Rule) list" where
  "replace_check key f table =
     map (\<lambda>entry. if fst entry = key then (fst entry, (snd entry)\<lparr>check := f\<rparr>) else entry) table"

subsection \<open>Sample inputs\<close>

text \<open>
  Values for the parameters: a stand-in parser that takes the name up to the first
  \<^verbatim>\<open>@\<close>, plain markers, a trim for the ASCII white space characters and, for the
  numbers the engine prints by its own algorithm, a stand-in that prints \<^verbatim>\<open>2.5\<close>, the
  one such number the samples use.
\<close>

definition is_space :: "char \<Rightarrow> bool" where
  "is_space c = (c \<in> set [CHR 0x09, CHR 0x0A, CHR 0x0B, CHR 0x0C, CHR 0x0D, CHR '' ''])"

definition ascii_trim :: "string \<Rightarrow> string" where
  "ascii_trim s = rev (dropWhile is_space (rev (dropWhile is_space s)))"

definition sample_externals :: externals where
  "sample_externals =
     \<lparr>parsePackageName = (\<lambda>d. Some (takeWhile (\<lambda>c. c \<noteq> CHR ''@'') d)),
      VERTICAL_LINE = ''|'', WARN = ''WARN'', ERROR = ''ERROR'',
      trim = ascii_trim, numberToString = (\<lambda>r. ''2.5'')\<rparr>"

definition lodash_block :: block where
  "lodash_block = \<lparr>name = ''chunk'', category = ''utils'', localDependencies = [],
     dependencies = [''lodash''], devDependencies = [''vitest@2.1.0''], list' = True\<rparr>"

definition lodash_manifest :: manifest_t where
  "lodash_manifest = \<lparr>categories = [\<lparr>cat_name = ''utils'', blocks = [lodash_block]\<rparr>]\<rparr>"

definition three_deps :: block where
  "three_deps = \<lparr>name = ''sum'', category = ''math'',
     localDependencies = [''math/add'', ''math/mul'', ''math/neg''],
     dependencies = [], devDependencies = [], list' = True\<rparr>"

text \<open>A block with local dependencies only.\<close>

definition mk_block :: "string \<Rightarrow> string \<Rightarrow> string list \<Rightarrow> bool \<Rightarrow> block" where
  "mk_block cat n deps listed =
     \<lparr>name = n, category = cat, localDependencies = deps, dependencies = [],
      devDependencies = [], list' = listed\<rparr>"

text \<open>A block whose local dependency has a third segment, and a block that depends on itself.\<close>

definition trailing_block :: block where
  "trailing_block = mk_block ''a'' ''b'' [''a/b/c''] True"

definition trailing_cats :: "category_t list" where
  "trailing_cats = [\<lparr>cat_name = ''a'', blocks = [trailing_block]\<rparr>]"

definition self_block :: block where
  "self_block = mk_block ''a'' ''a'' [''a/a''] True"

definition self_cats :: "category_t list" where
  "self_cats = [\<lparr>cat_name = ''a'', blocks = [self_block]\<rparr>]"

text \<open>A block of category \<^verbatim>\<open>a\<close> that depends on the index block of category \<^verbatim>\<open>b\<close>.\<close>

definition cross_block :: block where
  "cross_block = mk_block ''a'' ''x'' [''b/index''] True"

definition cross_manifest :: manifest_t where
  "cross_manifest = \<lparr>categories =
     [\<lparr>cat_name = ''a'', blocks = [cross_block]\<rparr>,
      \<lparr>cat_name = ''b'', blocks = [mk_block ''b'' ''index'' [] True]\<rparr>]\<rparr>"

text \<open>A cycle of three blocks.\<close>

definition cycle3_a :: block where
  "cycle3_a = mk_block ''cat'' ''a'' [''cat/b''] True"

definition cycle3_b :: block where
  "cycle3_b = mk_block ''cat'' ''b'' [''cat/c''] True"

definition cycle3_c :: block where
  "cycle3_c = mk_block ''cat'' ''c'' [''cat/a''] True"

definition cycle3_manifest :: manifest_t where
  "cycle3_manifest =
     \<lparr>categories = [\<lparr>cat_name = ''cat'', blocks = [cycle3_a, cycle3_b, cycle3_c]\<rparr>]\<rparr>"

text \<open>
  A listed block \<^verbatim>\<open>c/l\<close> that depends on \<^verbatim>\<open>c/m\<close>, which depends on \<^verbatim>\<open>c/l\<close> and then
  on \<^verbatim>\<open>c/t\<close>.
\<close>

definition back_edge_manifest :: manifest_t where
  "back_edge_manifest = \<lparr>categories = [\<lparr>cat_name = ''c'', blocks =
     [mk_block ''c'' ''l'' [''c/m''] True,
      mk_block ''c'' ''m'' [''c/l'', ''c/t''] False,
      mk_block ''c'' ''t'' [] False]\<rparr>]\<rparr>"




text \<open>
  Collaborators for the update of a file to the empty content: the line diff is one
  removed part that holds the old content.
\<close>

definition removal_collaborators :: collaborators where
  "removal_collaborators =
     \<lparr>diffLines = (\<lambda>old new. [\<lparr>value' = old, added = False, removed = True\<rparr>]),
      updateFile = (\<lambda>model old new. None),
      formatFile = (\<lambda>content path. content)\<rparr>"

section \<open>Properties of the rules\<close>

subsection \<open>max-local-dependencies\<close>

text \<open>
  C5. With a configured limit (a number as the first option, whichever number: finite,
  \<^verbatim>\<open>NaN\<close> or infinite), \<^verbatim>\<open>max-local-dependencies\<close> reports exactly when the number of
  local dependencies is strictly greater than the limit (never for \<^verbatim>\<open>NaN\<close>), and then
  reports one violation that names the block, the number of its local dependencies and
  the limit as the engine prints it.
\<close>

theorem max_local_dependencies_exceeds:
  "max_local_dependencies_check ext b \<lparr>manifest = m, options = Num limit # rest, config = cfg\<rparr> =
     Inr (if (case limit of
                Finite r \<Rightarrow> real (length (localDependencies b)) > r
              | NaN \<Rightarrow> False
              | PosInfinity \<Rightarrow> False
              | NegInfinity \<Rightarrow> True)
          then Some [bold (specifier b) @ '' has too many local dependencies ('' @
                 bold (string_of_nat (length (localDependencies b))) @ '') limit ('' @
                 bold (number_to_string (numberToString ext) limit) @ '')'']
          else None)"
  by (simp add: max_local_dependencies_check_def max_local_dependencies_limit_def
        errors_or_undefined_def length_greater_def)

text \<open>
  A block with three local dependencies: one violation at limit 2, none at limit 3,
  one at limit 2.5 and none at \<^verbatim>\<open>NaN\<close>.
\<close>

theorem max_local_dependencies_exceeds_witness:
  "max_local_dependencies_check sample_externals three_deps
     \<lparr>manifest = \<lparr>categories = []\<rparr>, options = [Num (Finite 2)], config = ()\<rparr> =
     Inr (Some [''math/sum has too many local dependencies (3) limit (2)'']) \<and>
   max_local_dependencies_check sample_externals three_deps
     \<lparr>manifest = \<lparr>categories = []\<rparr>, options = [Num (Finite 3)], config = ()\<rparr> =
     Inr None \<and>
   max_local_dependencies_check sample_externals three_deps
     \<lparr>manifest = \<lparr>categories = []\<rparr>, options = [Num (Finite (5 / 2))], config = ()\<rparr> =
     Inr (Some [''math/sum has too many local dependencies (3) limit (2.5)'']) \<and>
   max_local_dependencies_check sample_externals three_deps
     \<lparr>manifest = \<lparr>categories = []\<rparr>, options = [Num NaN], config = ()\<rparr> =
     Inr None"
proof -
  have s3: "string_of_nat (Suc (Suc (Suc 0))) = ''3''"
    by code_simp
  have s2: "string_of_int 2 = ''2''"
    by code_simp
  have n2: "number_to_string (numberToString sample_externals) (Finite 2) = ''2''"
    by (simp add: number_to_string_def s2)
  have f: "\<lfloor>5 / 2 :: real\<rfloor> = 2"
    by (simp add: floor_eq_iff)
  have n25: "number_to_string (numberToString sample_externals) (Finite (5 / 2)) = ''2.5''"
    by (simp add: number_to_string_def sample_externals_def f)
  show ?thesis
    using max_local_dependencies_exceeds
        [of sample_externals three_deps "\<lparr>categories = []\<rparr>" "Finite 2" "[]" "()"]
      max_local_dependencies_exceeds
        [of sample_externals three_deps "\<lparr>categories = []\<rparr>" "Finite 3" "[]" "()"]
      max_local_dependencies_exceeds
        [of sample_externals three_deps "\<lparr>categories = []\<rparr>" "Finite (5 / 2)" "[]" "()"]
      max_local_dependencies_exceeds
        [of sample_externals three_deps "\<lparr>categories = []\<rparr>" NaN "[]" "()"]
    by (simp add: three_deps_def bold_def specifier_def s3 n2 n25)
qed

subsection \<open>no-category-index-file-dependency\<close>

lemma errors_or_undefined_Some: "(\<exists>errs. errors_or_undefined xs = Some errs) = (xs \<noteq> [])"
  by (simp add: errors_or_undefined_def)

lemma no_category_index_dep_nonempty:
  "(no_category_index_file_dependency_dep m b dep \<noteq> []) = index_dependency (categories m) dep"
  by (auto simp: no_category_index_file_dependency_dep_def index_dependency_def lookup_dep_def
        Let_def split: option.splits)

text \<open>
  C4, as amended. \<^verbatim>\<open>no-category-index-file-dependency\<close> reports a violation exactly
  when the block has a local dependency whose second segment is \<^verbatim>\<open>index\<close> and that
  resolves to a block of the manifest. The category of the dependency is any category
  of the manifest; the block's own category is not compared.
\<close>

theorem no_category_index_any_category:
  "(\<exists>errs. no_category_index_file_dependency_check b opts = Inr (Some errs)) =
     (\<exists>dep \<in> set (localDependencies b). index_dependency (categories (manifest opts)) dep)"
proof -
  have "(\<exists>errs. no_category_index_file_dependency_check b opts = Inr (Some errs)) =
        (concat (map (no_category_index_file_dependency_dep (manifest opts) b)
           (localDependencies b)) \<noteq> [])"
    by (simp add: no_category_index_file_dependency_check_def errors_or_undefined_Some)
  also have "\<dots> = (\<exists>dep \<in> set (localDependencies b).
                      no_category_index_file_dependency_dep (manifest opts) b dep \<noteq> [])"
    by auto
  finally show ?thesis
    by (simp add: no_category_index_dep_nonempty)
qed

text \<open>
  The claim of C4 as stated fails: a block of category \<^verbatim>\<open>a\<close> that depends on
  \<^verbatim>\<open>b/index\<close>, the index block of another category, is reported.
\<close>

theorem no_category_index_other_category_counterexample:
  "category cross_block = ''a'' \<and> localDependencies cross_block = [''b/index''] \<and>
   no_category_index_file_dependency_check cross_block
     \<lparr>manifest = cross_manifest, options = [], config = ()\<rparr> =
     Inr (Some [''a/x depends on b/index''])"
  by code_simp

subsection \<open>no-unpinned-dependency\<close>

text \<open>
  C3. The check looks for the character \<^verbatim>\<open>@\<close> only: \<^verbatim>\<open>lodash@\<close> (an empty version) and
  the scoped name \<^verbatim>\<open>@sveltejs/kit\<close> (no version) carry no version pin and are not
  reported.
\<close>

theorem unpinned_with_at_sign_not_reported:
  "no_unpinned_dependency_check
     \<lparr>name = ''chunk'', category = ''utils'', localDependencies = [],
      dependencies = [''lodash@''], devDependencies = [''@sveltejs/kit''], list' = True\<rparr>
     \<lparr>manifest = \<lparr>categories = []\<rparr>, options = [], config = ()\<rparr> = Inr None"
  by code_simp

section \<open>Properties of runRules\<close>

lemma run_rule_off:
  "level_of (ruleConfig (fst entry)) = Some Off \<Longrightarrow>
     run_rule ext m cfg ruleConfig b entry acc = Inr acc"
  by (simp add: run_rule_def)

lemma for_each_replace_check:
  "level_of (ruleConfig key) = Some Off \<Longrightarrow>
     for_each (run_rule ext m cfg ruleConfig b) (replace_check key f table) acc =
     for_each (run_rule ext m cfg ruleConfig b) table acc"
proof (induction table arbitrary: acc)
  case Nil
  then show ?case by (simp add: replace_check_def)
next
  case (Cons entry table)
  have step: "run_rule ext m cfg ruleConfig b
                (if fst entry = key then (fst entry, (snd entry)\<lparr>check := f\<rparr>) else entry) acc =
              run_rule ext m cfg ruleConfig b entry acc"
    using Cons.prems by (simp add: run_rule_off)
  have tail: "\<And>acc'. for_each (run_rule ext m cfg ruleConfig b)
                  (map (\<lambda>entry. if fst entry = key then (fst entry, (snd entry)\<lparr>check := f\<rparr>)
                                 else entry) table) acc' =
                for_each (run_rule ext m cfg ruleConfig b) table acc'"
    using Cons.IH[OF Cons.prems] by (simp add: replace_check_def)
  show ?case
    unfolding replace_check_def list.map for_each.simps step
    by (simp add: tail split: sum.splits)
qed

lemma for_each_replace_check_fun:
  "level_of (ruleConfig key) = Some Off \<Longrightarrow>
     for_each (run_rule ext m cfg ruleConfig b) (replace_check key f table) =
     for_each (run_rule ext m cfg ruleConfig b) table"
  by (rule ext) (rule for_each_replace_check)

text \<open>
  C6. When the configured level of a rule is \<^verbatim>\<open>off\<close>, the result of \<^verbatim>\<open>runRules\<close> is
  the same whatever the rule's check function is: a check that reports nothing, one
  that reports on every block and one that throws all give the result of the real
  table. So the rule adds no violation and its check is not called.
\<close>

theorem off_rule_not_invoked:
  assumes "level_of (ruleConfig key) = Some Off"
  shows "runRules_with (replace_check key f (rules ext stack)) ext m cfg ruleConfig =
         runRules ext stack m cfg ruleConfig"
  using assms
  by (simp add: runRules_def runRules_with_def for_each_replace_check_fun)

text \<open>
  \<^verbatim>\<open>no-unpinned-dependency\<close> switched off on a manifest with the unpinned dependency
  \<^verbatim>\<open>lodash\<close>: no warning, also with a check that would throw; with the default
  configuration the warning is there.
\<close>

theorem off_rule_not_invoked_witness:
  "level_of ((DEFAULT_CONFIG(''no-unpinned-dependency'' \<mapsto> Level Off)) ''no-unpinned-dependency'') =
     Some Off \<and>
   runRules_with
     (replace_check ''no-unpinned-dependency'' (\<lambda>b opts. Inl TypeError) (rules sample_externals 8))
     sample_externals lodash_manifest () (DEFAULT_CONFIG(''no-unpinned-dependency'' \<mapsto> Level Off)) =
     Inr \<lparr>warnings = [], errors = []\<rparr> \<and>
   runRules sample_externals 8 lodash_manifest () DEFAULT_CONFIG =
     Inr \<lparr>warnings = [''|  WARN Couldn't find a version to use for lodash no-unpinned-dependency''],
          errors = []\<rparr>"
proof -
  have off: "level_of ((DEFAULT_CONFIG(''no-unpinned-dependency'' \<mapsto> Level Off))
               ''no-unpinned-dependency'') = Some Off"
    by (simp add: level_of_def)
  have run: "runRules sample_externals 8 lodash_manifest ()
               (DEFAULT_CONFIG(''no-unpinned-dependency'' \<mapsto> Level Off)) =
             Inr \<lparr>warnings = [], errors = []\<rparr>"
    by code_simp
  have dflt: "runRules sample_externals 8 lodash_manifest () DEFAULT_CONFIG =
     Inr \<lparr>warnings = [''|  WARN Couldn't find a version to use for lodash no-unpinned-dependency''],
          errors = []\<rparr>"
    by code_simp
  from off_rule_not_invoked[of "DEFAULT_CONFIG(''no-unpinned-dependency'' \<mapsto> Level Off)"
      "''no-unpinned-dependency''" "\<lambda>b opts. Inl TypeError" sample_externals 8 lodash_manifest "()"]
    off run dflt
  show ?thesis by simp
qed




section \<open>Properties of searchForDep\<close>

lemma lookup_dep_in_manifest:
  "lookup_dep cats dep = Some d \<Longrightarrow> d \<in> set (all_blocks cats)"
  by (auto simp: lookup_dep_def find_category_def find_block_def all_blocks_def Let_def
        find_Some_iff split: option.splits) (metis nth_mem)

lemma well_named_dep:
  "well_named cats \<Longrightarrow> b \<in> set (all_blocks cats) \<Longrightarrow> dep \<in> set (localDependencies b) \<Longrightarrow>
     lookup_dep cats dep = Some d \<Longrightarrow> specifier d = dep"
  by (auto simp: well_named_def names_resolved_def list_all_iff split: option.splits)

lemma frames_needed_pos:
  "b \<in> set (all_blocks cats) \<Longrightarrow> 0 < frames_needed cats chain b"
proof (cases "specifier b \<in> set chain")
  case True
  then show ?thesis by (simp add: frames_needed_def)
next
  case False
  assume "b \<in> set (all_blocks cats)"
  with False have "specifier b \<in> set (map specifier (all_blocks cats)) - set chain"
    by auto
  then have "0 < card (set (map specifier (all_blocks cats)) - set chain)"
    by (metis List.finite_set card_gt_0_iff empty_iff finite_Diff)
  then show ?thesis by (simp add: frames_needed_def)
qed

text \<open>
  Descending into a dependency that is not in the chain lowers the bound: either the
  current block's specifier is new to the chain, or it was there already and the
  dependency's is not.
\<close>

lemma frames_needed_descend:
  assumes b: "b \<in> set (all_blocks cats)" and d: "specifier d \<notin> set chain"
  shows "frames_needed cats (chain @ [specifier b]) d < frames_needed cats chain b"
proof (cases "specifier b \<in> set chain")
  case True
  then have "set (chain @ [specifier b]) = set chain" by auto
  with True d show ?thesis by (simp add: frames_needed_def)
next
  case False
  let ?S = "set (map specifier (all_blocks cats))"
  from b False have mem: "specifier b \<in> ?S - set chain" by auto
  have eq: "?S - set (chain @ [specifier b]) = (?S - set chain) - {specifier b}" by auto
  have fin: "finite (?S - set chain)" by simp
  from mem fin have "card ((?S - set chain) - {specifier b}) < card (?S - set chain)"
    by (rule card_Diff1_less[rotated])
  with eq have "card (?S - set (chain @ [specifier b])) < card (?S - set chain)" by simp
  with False show ?thesis by (simp add: frames_needed_def)
qed

lemma searchForDep_loop_returns:
  "(\<And>dep d. dep \<in> set deps \<Longrightarrow> dep \<notin> set chain \<Longrightarrow> lookup_dep cats dep = Some d \<Longrightarrow>
       \<exists>r. searchForDep n search d cats newChain = Inr r) \<Longrightarrow>
   \<exists>r. searchForDep_loop n search deps cats chain newChain = Inr r"
proof (induction deps)
  case Nil
  then show ?case by simp
next
  case (Cons dep deps)
  have rest: "\<exists>r. searchForDep_loop n search deps cats chain newChain = Inr r"
    by (rule Cons.IH) (auto intro: Cons.prems)
  show ?case
  proof (cases "dep = search \<or> dep \<in> set chain")
    case True
    then show ?thesis by auto
  next
    case False
    show ?thesis
    proof (cases "lookup_dep cats dep")
      case None
      with False rest show ?thesis by simp
    next
      case (Some d)
      with False Cons.prems[of dep d] obtain r where "searchForDep n search d cats newChain = Inr r"
        by auto
      with False Some rest show ?thesis by (cases r) auto
    qed
  qed
qed

lemma searchForDep_returns_within:
  "well_named cats \<Longrightarrow> b \<in> set (all_blocks cats) \<Longrightarrow> frames_needed cats chain b \<le> n \<Longrightarrow>
     \<exists>r. searchForDep n search b cats chain = Inr r"
proof (induction n arbitrary: b chain)
  case 0
  with frames_needed_pos[of b cats chain] show ?case by simp
next
  case (Suc n)
  have "\<exists>r. searchForDep_loop n search (localDependencies b) cats chain (chain @ [specifier b]) = Inr r"
  proof (rule searchForDep_loop_returns)
    fix dep d
    assume dep: "dep \<in> set (localDependencies b)" and fresh: "dep \<notin> set chain"
      and look: "lookup_dep cats dep = Some d"
    from Suc.prems(1,2) dep look have "specifier d = dep" by (rule well_named_dep)
    with fresh have "specifier d \<notin> set chain" by simp
    with Suc.prems(2) have "frames_needed cats (chain @ [specifier b]) d < frames_needed cats chain b"
      by (rule frames_needed_descend)
    with Suc.prems(3) have "frames_needed cats (chain @ [specifier b]) d \<le> n" by simp
    with Suc.prems(1) lookup_dep_in_manifest[OF look]
    show "\<exists>r. searchForDep n search d cats (chain @ [specifier b]) = Inr r"
      by (rule Suc.IH)
  qed
  then show ?case by simp
qed

text \<open>
  C10, as amended. In a manifest where every local dependency that resolves to a block
  is spelled as that block's specifier, \<^verbatim>\<open>searchForDep\<close> started on a block of the
  manifest with an empty chain returns, with cycles and self-dependencies too, and
  needs no more stack frames than twice the number of distinct block specifiers.
\<close>

theorem searchForDep_terminates_well_named:
  assumes "well_named cats" and "b \<in> set (all_blocks cats)"
    and "2 * distinct_specifiers cats \<le> stack"
  shows "\<exists>r. searchForDep stack search b cats [] = Inr r"
proof -
  have "frames_needed cats [] b = 2 * distinct_specifiers cats"
    by (simp add: frames_needed_def distinct_specifiers_def length_remdups_card_conv)
  with assms show ?thesis
    by (auto intro: searchForDep_returns_within)
qed

text \<open>The cycle of three blocks: six frames are enough.\<close>

theorem searchForDep_terminates_well_named_witness:
  "well_named (categories cycle3_manifest) \<and>
   cycle3_a \<in> set (all_blocks (categories cycle3_manifest)) \<and>
   2 * distinct_specifiers (categories cycle3_manifest) \<le> 6 \<and>
   (\<exists>r. searchForDep 6 ''cat/b'' cycle3_a (categories cycle3_manifest) [] = Inr r)"
proof -
  have w1: "well_named (categories cycle3_manifest)"
    by code_simp
  have w2: "cycle3_a \<in> set (all_blocks (categories cycle3_manifest))"
    by code_simp
  have w3: "2 * distinct_specifiers (categories cycle3_manifest) \<le> 6"
    by code_simp
  note r = searchForDep_terminates_well_named[OF w1 w2 w3, of "''cat/b''"]
  show ?thesis
    by (intro conjI w1 w2 w3 r)
qed

lemma trailing_overflow:
  "set chain \<subseteq> {''a/b''} \<Longrightarrow>
     searchForDep stack ''x/y'' trailing_block trailing_cats chain = Inl RangeError"
proof (induction stack arbitrary: chain)
  case 0
  then show ?case by simp
next
  case (Suc stack)
  have look: "lookup_dep trailing_cats ''a/b/c'' = Some trailing_block"
    by code_simp
  have spec: "specifier trailing_block = ''a/b''"
    by code_simp
  have deps: "localDependencies trailing_block = [''a/b/c'']"
    by code_simp
  from Suc.prems have notin: "''a/b/c'' \<notin> set chain" by auto
  from Suc.prems have "set (chain @ [''a/b'']) \<subseteq> {''a/b''}" by simp
  then have "searchForDep stack ''x/y'' trailing_block trailing_cats (chain @ [''a/b'']) =
             Inl RangeError"
    by (rule Suc.IH)
  with notin show ?case
    by (simp add: deps spec look)
qed

text \<open>
  The claim of C10 as stated fails twice. The block \<^verbatim>\<open>a/b\<close> with the local dependency
  \<^verbatim>\<open>a/b/c\<close>: the dependency resolves to \<^verbatim>\<open>a/b\<close> itself and is never in the chain, so
  the search overflows every stack. The block \<^verbatim>\<open>a/a\<close> that depends on itself: the
  manifest has one specifier and the search needs two frames.
\<close>

theorem searchForDep_overflow_counterexample:
  "(\<forall>stack. searchForDep stack ''x/y'' trailing_block trailing_cats [] = Inl RangeError) \<and>
   distinct_specifiers self_cats = 1 \<and>
   searchForDep 1 ''x/y'' self_block self_cats [] = Inl RangeError \<and>
   searchForDep 2 ''x/y'' self_block self_cats [] = Inr None"
proof -
  have a: "\<forall>stack. searchForDep stack ''x/y'' trailing_block trailing_cats [] = Inl RangeError"
    by (simp add: trailing_overflow)
  have b: "distinct_specifiers self_cats = 1"
    by code_simp
  have c: "searchForDep 1 ''x/y'' self_block self_cats [] = Inl RangeError"
    by code_simp
  have d: "searchForDep 2 ''x/y'' self_block self_cats [] = Inr None"
    by code_simp
  from a b c d show ?thesis by simp
qed

text \<open>
  C1. On a cycle of three blocks the search appends the target once for every call it
  returns through: the chain of \<^verbatim>\<open>no-circular-dependency\<close> for \<^verbatim>\<open>cat/a\<close> ends with the
  starting specifier twice.
\<close>

theorem three_cycle_chain_repeats_target:
  "searchForDep 8 ''cat/a'' cycle3_a (categories cycle3_manifest) [] =
     Inr (Some [''cat/a'', ''cat/b'', ''cat/c'', ''cat/a'', ''cat/a'']) \<and>
   no_circular_dependency_check 8 cycle3_a
     \<lparr>manifest = cycle3_manifest, options = [], config = ()\<rparr> =
     Inr (Some [''There is a circular dependency in cat/a: cat/a -> cat/b -> cat/c -> cat/a -> cat/a''])"
  by code_simp

text \<open>
  C2. The block \<^verbatim>\<open>c/t\<close> is a local dependency of \<^verbatim>\<open>c/m\<close>, which is a local dependency
  of the listed block \<^verbatim>\<open>c/l\<close>; the search from \<^verbatim>\<open>c/l\<close> stops at the dependency of
  \<^verbatim>\<open>c/m\<close> on \<^verbatim>\<open>c/l\<close> before it reads \<^verbatim>\<open>c/t\<close>, and \<^verbatim>\<open>no-unused-block\<close> reports \<^verbatim>\<open>c/t\<close>.
\<close>

theorem reachable_block_flagged_unused:
  "no_unused_block_check 8 (mk_block ''c'' ''t'' [] False)
     \<lparr>manifest = back_edge_manifest, options = [], config = ()\<rparr> =
     Inr (Some [''c/t is unused and will be removed''])"
  by code_simp

section \<open>Properties of the update of a file\<close>




text \<open>
  C7. A file with the content \<^verbatim>\<open>"a\n"\<close> and an empty candidate content: the diff is
  one removed part, a real change, and the file is passed over without a prompt (the
  answer is not read) and without a write.
\<close>

theorem whole_file_removal_not_prompted:
  "diffLines removal_collaborators ''a\<newline>'' [] =
     [\<lparr>value' = ''a\<newline>'', added = False, removed = True\<rparr>] \<and>
   update_file removal_collaborators False False ''src/utils/a.ts'' (Some [])
     [''src/utils/a.ts'' \<mapsto> ''a\<newline>''] [Selected ''accept''] =
     Returned ([''src/utils/a.ts'' \<mapsto> ''a\<newline>''], [Selected ''accept''])"
  by (simp add: removal_collaborators_def update_file_def review.simps)

end
